theory Spec2Isabelle
  imports Complex_Main "HOL-Library.Sublist" "HOL-Library.Monad_Syntax"
begin

section \<open>Numeric values of a frame column\<close>

text \<open>
  A numeric cell of a data frame is a 64-bit float or integer. The model keeps the
  special values of float arithmetic and represents every finite value by the rational
  number it denotes: arithmetic on finite values is exact (the rounding error and the
  overflow of 64-bit floats are not modelled, and there is a single zero, which divides
  like the positive zero). Dividing by zero never raises: as in numpy, it yields an
  infinity or \<open>NaN\<close>.
\<close>

datatype fval = Fin rat | PInf | NInf | NaN


fun fneg :: "fval \<Rightarrow> fval" where
  "fneg (Fin a) = Fin (- a)"
| "fneg PInf = NInf"
| "fneg NInf = PInf"
| "fneg NaN = NaN"

fun fadd :: "fval \<Rightarrow> fval \<Rightarrow> fval" where
  "fadd (Fin a) (Fin b) = Fin (a + b)"
| "fadd (Fin a) PInf = PInf"
| "fadd (Fin a) NInf = NInf"
| "fadd PInf (Fin b) = PInf"
| "fadd PInf PInf = PInf"
| "fadd PInf NInf = NaN"
| "fadd NInf (Fin b) = NInf"
| "fadd NInf NInf = NInf"
| "fadd NInf PInf = NaN"
| "fadd NaN y = NaN"
| "fadd x NaN = NaN"

definition fsub :: "fval \<Rightarrow> fval \<Rightarrow> fval" where
  "fsub x y = fadd x (fneg y)"

text \<open>The product of an infinity with a finite value: the sign decides, zero gives \<open>NaN\<close>.\<close>

definition inf_times :: "fval \<Rightarrow> rat \<Rightarrow> fval" where
  "inf_times i a = (if a = 0 then NaN else if 0 < a then i else fneg i)"

fun fmul :: "fval \<Rightarrow> fval \<Rightarrow> fval" where
  "fmul (Fin a) (Fin b) = Fin (a * b)"
| "fmul (Fin a) PInf = inf_times PInf a"
| "fmul (Fin a) NInf = inf_times NInf a"
| "fmul PInf (Fin b) = inf_times PInf b"
| "fmul NInf (Fin b) = inf_times NInf b"
| "fmul PInf PInf = PInf"
| "fmul PInf NInf = NInf"
| "fmul NInf PInf = NInf"
| "fmul NInf NInf = PInf"
| "fmul NaN y = NaN"
| "fmul x NaN = NaN"

fun fdiv :: "fval \<Rightarrow> fval \<Rightarrow> fval" where
  "fdiv (Fin a) (Fin b) =
     (if b \<noteq> 0 then Fin (a / b)
      else if 0 < a then PInf else if a < 0 then NInf else NaN)"
| "fdiv (Fin a) PInf = Fin 0"
| "fdiv (Fin a) NInf = Fin 0"
| "fdiv PInf (Fin b) = (if 0 \<le> b then PInf else NInf)"
| "fdiv NInf (Fin b) = (if 0 \<le> b then NInf else PInf)"
| "fdiv PInf PInf = NaN"
| "fdiv PInf NInf = NaN"
| "fdiv NInf PInf = NaN"
| "fdiv NInf NInf = NaN"
| "fdiv NaN y = NaN"
| "fdiv x NaN = NaN"

text \<open>Rounding to the nearest integer, ties to the even one (numpy's \<open>rint\<close>).\<close>

definition rint :: "rat \<Rightarrow> int" where
  "rint q =
     (let f = \<lfloor>q\<rfloor>; d = q - of_int f
      in if d < 1 / 2 then f
         else if 1 / 2 < d then f + 1
         else if even f then f else f + 1)"

text \<open>\<open>Series.round(2)\<close>: scale by 100, round, scale back; special values stay.\<close>

fun round2 :: "fval \<Rightarrow> fval" where
  "round2 (Fin q) = Fin (of_int (rint (q * 100)) / 100)"
| "round2 x = x"

section \<open>Records of the data frame\<close>

text \<open>
  A timestamp of the \<open>date\<close> column: year, month, day and nanoseconds of the day, or
  \<open>NaT\<close> (a missing time). Every comparison with \<open>NaT\<close> is false.
\<close>

datatype timestamp = Timestamp nat nat nat nat | NaT

fun ts_le :: "timestamp \<Rightarrow> timestamp \<Rightarrow> bool" where
  "ts_le (Timestamp y1 m1 d1 n1) (Timestamp y2 m2 d2 n2) =
     (y1 < y2 \<or> (y1 = y2 \<and> (m1 < m2 \<or> (m1 = m2 \<and> (d1 < d2 \<or> (d1 = d2 \<and> n1 \<le> n2))))))"
| "ts_le _ _ = False"

text \<open>A calendar day, as the date picker returns it; \<open>pd.to_datetime\<close> puts it at midnight.\<close>

datatype pydate = Date nat nat nat

fun to_datetime_date :: "pydate \<Rightarrow> timestamp" where
  "to_datetime_date (Date y m d) = Timestamp y m d 0"

text \<open>
  One sales transaction with the seven columns of the input; \<open>'d\<close> is the type of the
  \<open>date\<close> cell (text as read from the file, a timestamp afterwards). A \<open>row\<close> is a
  transaction of the loaded frame, with the derived column \<open>margin\<close>.
\<close>

record 'd sale =
  date :: 'd
  category :: string
  product :: string
  sales :: fval
  profit :: fval
  customers :: fval
  region :: string

record row = "timestamp sale" +
  margin :: fval

text \<open>\<open>df['margin'] = (df['profit'] / df['sales'] * 100).round(2)\<close>, on one record.\<close>

definition margin_of :: "fval \<Rightarrow> fval \<Rightarrow> fval" where
  "margin_of p s = round2 (fmul (fdiv p s) (Fin 100))"

definition add_margin :: "timestamp sale \<Rightarrow> row" where
  "add_margin r =
     \<lparr>date = date r, category = category r, product = product r, sales = sales r,
      profit = profit r, customers = customers r, region = region r,
      margin = margin_of (profit r) (sales r)\<rparr>"

section \<open>Exceptions\<close>

datatype exn = FileNotFoundError | KeyError string | ValueError | OtherError string

section \<open>Random numbers\<close>

text \<open>
  The global generator of \<open>np.random\<close> is a source of raw draws and a position in it.
  \<open>randint low high\<close> returns an integer of \<open>[low, high)\<close>, \<open>uniform low high\<close> a
  value of \<open>[low, high)\<close> made from 53 random bits, \<open>choice\<close> an element of the list;
  every value the library can return is the image of some raw draw.
\<close>

record rng =
  entropy :: "nat \<Rightarrow> nat"
  pos :: nat

definition draw :: "rng \<Rightarrow> nat \<times> rng" where
  "draw g = (entropy g (pos g), g\<lparr>pos := Suc (pos g)\<rparr>)"

definition randint :: "int \<Rightarrow> int \<Rightarrow> rng \<Rightarrow> int \<times> rng" where
  "randint low high g = (case draw g of (n, g') \<Rightarrow> (low + int n mod (high - low), g'))"

definition uniform :: "rat \<Rightarrow> rat \<Rightarrow> rng \<Rightarrow> rat \<times> rng" where
  "uniform low high g =
     (case draw g of (n, g') \<Rightarrow>
        (low + (high - low) * (of_nat (n mod 2 ^ 53) / 2 ^ 53), g'))"

definition choice :: "'a list \<Rightarrow> rng \<Rightarrow> 'a \<times> rng" where
  "choice xs g = (case randint 0 (int (length xs)) g of (i, g') \<Rightarrow> (xs ! nat i, g'))"

section \<open>Synthetic data\<close>

definition sample_date_range :: "timestamp list" where
  "sample_date_range = map (\<lambda>d. Timestamp 2024 1 d 0) [1..<32]"

definition sample_categories :: "string list" where
  "sample_categories = [''Elettronica'', ''Abbigliamento'', ''Casa'']"

definition sample_products :: "(string \<times> string list) list" where
  "sample_products =
     [(''Elettronica'', [''Smartphone'', ''Tablet'', ''Laptop'', ''TV'', ''Smartwatch'']),
      (''Abbigliamento'', [''Giacca'', ''Pantaloni'', ''Scarpe'', ''Maglietta'']),
      (''Casa'', [''Forno'', ''Frigorifero'', ''Lavatrice'', ''Microonde''])]"

definition sample_regions :: "string list" where
  "sample_regions = [''Nord'', ''Centro'', ''Sud'']"

text \<open>
  The body of the innermost loop: four draws, in the order of the source. \<open>int(...)\<close>
  truncates a quotient of two positive integers, which is their integer division.
\<close>

definition sample_record ::
  "timestamp \<Rightarrow> string \<Rightarrow> string \<Rightarrow> rng \<Rightarrow> timestamp sale \<times> rng" where
  "sample_record d c p g =
     (case randint 1000 20000 g of (s, g1) \<Rightarrow>
      case uniform (1 / 4) (7 / 20) g1 of (u, g2) \<Rightarrow>
      case randint 40 60 g2 of (k, g3) \<Rightarrow>
      case choice sample_regions g3 of (rg, g4) \<Rightarrow>
        (\<lparr>date = d, category = c, product = p, sales = Fin (of_int s),
          profit = Fin (of_int s * u), customers = Fin (of_int (s div k)),
          region = rg\<rparr>, g4))"

text \<open>The three nested loops; \<open>data\<close> is the list the records are appended to.\<close>

fun product_loop ::
  "timestamp \<Rightarrow> string \<Rightarrow> string list \<Rightarrow> timestamp sale list \<times> rng
     \<Rightarrow> timestamp sale list \<times> rng" where
  "product_loop d c [] (data, g) = (data, g)"
| "product_loop d c (p # ps) (data, g) =
     (case sample_record d c p g of (r, g') \<Rightarrow> product_loop d c ps (data @ [r], g'))"

fun category_loop ::
  "timestamp \<Rightarrow> string list \<Rightarrow> timestamp sale list \<times> rng
     \<Rightarrow> exn + timestamp sale list \<times> rng" where
  "category_loop d [] st = Inr st"
| "category_loop d (c # cs) st =
     (case map_of sample_products c of
        None \<Rightarrow> Inl (KeyError c)
      | Some ps \<Rightarrow> category_loop d cs (product_loop d c ps st))"

fun date_loop ::
  "timestamp list \<Rightarrow> timestamp sale list \<times> rng \<Rightarrow> exn + timestamp sale list \<times> rng" where
  "date_loop [] st = Inr st"
| "date_loop (d # ds) st =
     (case category_loop d sample_categories st of
        Inl e \<Rightarrow> Inl e
      | Inr st' \<Rightarrow> date_loop ds st')"

definition create_sample_data :: "rng \<Rightarrow> exn + row list" where
  "create_sample_data g =
     (case date_loop sample_date_range ([], g) of
        Inl e \<Rightarrow> Inl e
      | Inr (data, g') \<Rightarrow> Inr (map add_margin data))"

section \<open>Loading\<close>

text \<open>
  What the libraries do with the file is given from outside: \<open>read_csv\<close> is the outcome
  of \<open>pd.read_csv('data.csv')\<close>, an exception or the records of the file with their
  \<open>date\<close> cells as text, and \<open>parse_date\<close> is the timestamp \<open>pd.to_datetime\<close> reads in
  one cell, \<open>None\<close> where it rejects the text (a \<open>ValueError\<close>). The file has the
  seven columns, the numeric ones with numbers.
\<close>

record env =
  read_csv :: "exn + string sale list"
  parse_date :: "string \<Rightarrow> timestamp option"

fun to_datetime :: "(string \<Rightarrow> timestamp option) \<Rightarrow> string sale list \<Rightarrow> exn + timestamp sale list" where
  "to_datetime f [] = Inr []"
| "to_datetime f (r # rs) =
     (case f (date r) of
        None \<Rightarrow> Inl ValueError
      | Some t \<Rightarrow>
          (case to_datetime f rs of
             Inl e \<Rightarrow> Inl e
           | Inr rs' \<Rightarrow>
               Inr (\<lparr>date = t, category = category r, product = product r, sales = sales r,
                     profit = profit r, customers = customers r, region = region r\<rparr> # rs')))"

text \<open>The body of the \<open>try\<close>.\<close>

definition try_load :: "env \<Rightarrow> exn + row list" where
  "try_load e =
     (case read_csv e of
        Inl x \<Rightarrow> Inl x
      | Inr df \<Rightarrow>
          (case to_datetime (parse_date e) df of
             Inl x \<Rightarrow> Inl x
           | Inr df' \<Rightarrow> Inr (map add_margin df')))"

definition warning_text :: string where
  "warning_text = ''File data.csv non trovato. Genero dati di esempio...''"

text \<open>
  \<open>load_data\<close> returns the frame, or the exception that leaves it, and the warnings it
  has shown. Only \<open>FileNotFoundError\<close> is caught. (The cache of the decorator only
  saves later calls; one call is modelled.)
\<close>

definition load_data :: "env \<Rightarrow> rng \<Rightarrow> (exn + row list) \<times> string list" where
  "load_data e g =
     (case try_load e of
        Inr df \<Rightarrow> (Inr df, [])
      | Inl x \<Rightarrow>
          if x = FileNotFoundError then (create_sample_data g, [warning_text])
          else (Inl x, []))"

section \<open>Notions for the proofs about the synthetic data\<close>

text \<open>What the four draws give one synthetic record.\<close>

definition sample_numbers :: "('d, 'z) sale_scheme \<Rightarrow> bool" where
  "sample_numbers r \<longleftrightarrow>
     region r \<in> set sample_regions \<and>
     (\<exists>s u. 1000 \<le> s \<and> s < 20000 \<and> 1 / 4 \<le> u \<and> u < 7 / 20 \<and>
        sales r = Fin (of_int s) \<and> profit r = Fin (of_int s * u))"

text \<open>The loop variables a record was made from.\<close>

definition key :: "('d, 'z) sale_scheme \<Rightarrow> 'd \<times> string \<times> string" where
  "key r = (date r, category r, product r)"

text \<open>The products of a category, and the keys of one day, in the order of the loops.\<close>

definition products_of :: "string \<Rightarrow> string list" where
  "products_of c = (case map_of sample_products c of None \<Rightarrow> [] | Some ps \<Rightarrow> ps)"

definition day_keys :: "timestamp \<Rightarrow> (timestamp \<times> string \<times> string) list" where
  "day_keys d = concat (map (\<lambda>c. map (\<lambda>p. (d, c, p)) (products_of c)) sample_categories)"

text \<open>The keys of the whole synthetic frame.\<close>

definition sample_keys :: "(timestamp \<times> string \<times> string) list" where
  "sample_keys = concat (map day_keys sample_date_range)"

section \<open>Filters\<close>

text \<open>\<open>Series.unique().tolist()\<close>: the values in the order of their first occurrence.\<close>

definition unique :: "'a list \<Rightarrow> 'a list" where
  "unique xs = rev (remdups (rev xs))"

text \<open>The options of the two multi-selects.\<close>

definition categories :: "row list \<Rightarrow> string list" where
  "categories df = unique (map category df)"

definition regions :: "row list \<Rightarrow> string list" where
  "regions df = unique (map region df)"

text \<open>
  The mask of one record, for a date range of two days: both comparisons of the
  \<open>date\<close> with the bounds at midnight, and the two \<open>isin\<close> tests.
\<close>

definition row_mask :: "pydate \<Rightarrow> pydate \<Rightarrow> string list \<Rightarrow> string list \<Rightarrow> row \<Rightarrow> bool" where
  "row_mask lo hi cats regs r \<longleftrightarrow>
     ts_le (to_datetime_date lo) (date r) \<and>
     ts_le (date r) (to_datetime_date hi) \<and>
     category r \<in> set cats \<and>
     region r \<in> set regs"

text \<open>
  The records of \<open>filtered_df\<close>: \<open>df[mask]\<close> when the date picker has returned two
  days, all of \<open>df\<close> otherwise.
\<close>

fun filtered_df :: "row list \<Rightarrow> pydate list \<Rightarrow> string list \<Rightarrow> string list \<Rightarrow> row list" where
  "filtered_df df [lo, hi] cats regs = filter (row_mask lo hi cats regs) df"
| "filtered_df df dr cats regs = df"

section \<open>Indicators\<close>

primrec fsum :: "fval list \<Rightarrow> fval" where
  "fsum [] = Fin 0"
| "fsum (x # xs) = fadd x (fsum xs)"

text \<open>\<open>Series.sum()\<close> and \<open>Series.mean()\<close> skip the missing values (\<open>NaN\<close>).\<close>

definition col_sum :: "fval list \<Rightarrow> fval" where
  "col_sum xs = fsum (filter (\<lambda>x. x \<noteq> NaN) xs)"

definition col_mean :: "fval list \<Rightarrow> fval" where
  "col_mean xs = fdiv (col_sum xs) (Fin (of_nat (length (filter (\<lambda>x. x \<noteq> NaN) xs))))"

definition total_sales :: "row list \<Rightarrow> fval" where
  "total_sales fdf = col_sum (map sales fdf)"

definition delta_sales :: "row list \<Rightarrow> row list \<Rightarrow> fval" where
  "delta_sales fdf df =
     fmul (fsub (fdiv (col_sum (map sales fdf)) (col_sum (map sales df))) (Fin 1)) (Fin 100)"

definition total_profit :: "row list \<Rightarrow> fval" where
  "total_profit fdf = col_sum (map profit fdf)"

text \<open>The percentage shown under the total profit: \<open>total_profit/total_sales*100\<close>.\<close>

definition profit_margin :: "row list \<Rightarrow> fval" where
  "profit_margin fdf = fmul (fdiv (total_profit fdf) (total_sales fdf)) (Fin 100)"

definition avg_customers :: "row list \<Rightarrow> fval" where
  "avg_customers fdf = col_mean (map customers fdf)"

definition unique_products :: "row list \<Rightarrow> nat" where
  "unique_products fdf = length (unique (map product fdf))"

record kpis =
  kpi_total_sales :: fval
  kpi_delta_sales :: fval
  kpi_total_profit :: fval
  kpi_profit_margin :: fval
  kpi_avg_customers :: fval
  kpi_unique_products :: nat
  kpi_transactions :: nat

definition kpi_cards :: "row list \<Rightarrow> row list \<Rightarrow> kpis" where
  "kpi_cards fdf df =
     \<lparr>kpi_total_sales = total_sales fdf, kpi_delta_sales = delta_sales fdf df,
      kpi_total_profit = total_profit fdf, kpi_profit_margin = profit_margin fdf,
      kpi_avg_customers = avg_customers fdf, kpi_unique_products = unique_products fdf,
      kpi_transactions = length fdf\<rparr>"

section \<open>Export\<close>

text \<open>
  \<open>to_csv(index=False)\<close> writes the names of the columns, then one line for each record
  with its eight cells and no row label. How a cell is written (numbers, timestamps,
  quoting) and how a line ends are the library's and the platform's: \<open>cell_text\<close> gives
  the text of the cells of a record and the end of a line. The columns are in the order
  of the synthetic frame.
\<close>

record cell_text =
  text_of_date :: "timestamp \<Rightarrow> string"
  text_of_str :: "string \<Rightarrow> string"
  text_of_num :: "fval \<Rightarrow> string"
  line_end :: string

definition columns :: "string list" where
  "columns = [''date'', ''category'', ''product'', ''sales'', ''profit'', ''customers'',
              ''region'', ''margin'']"

definition row_cells :: "cell_text \<Rightarrow> row \<Rightarrow> string list" where
  "row_cells t r =
     [text_of_date t (date r), text_of_str t (category r), text_of_str t (product r),
      text_of_num t (sales r), text_of_num t (profit r), text_of_num t (customers r),
      text_of_str t (region r), text_of_num t (margin r)]"

fun join_comma :: "string list \<Rightarrow> string" where
  "join_comma [] = []"
| "join_comma [x] = x"
| "join_comma (x # y # ys) = x @ '','' @ join_comma (y # ys)"

definition csv_lines :: "cell_text \<Rightarrow> row list \<Rightarrow> string list list" where
  "csv_lines t fdf = columns # map (row_cells t) fdf"

definition to_csv :: "cell_text \<Rightarrow> row list \<Rightarrow> string" where
  "to_csv t fdf = concat (map (\<lambda>l. join_comma l @ line_end t) (csv_lines t fdf))"

text \<open>
  \<open>strftime('%Y%m%d')\<close> of a day with a year of four digits: the decimal digits of the
  year, the month and the day, padded with zeros.
\<close>

definition digit_char :: "nat \<Rightarrow> char" where
  "digit_char k = ''0123456789'' ! k"

definition pad2 :: "nat \<Rightarrow> string" where
  "pad2 n = [digit_char (n div 10 mod 10), digit_char (n mod 10)]"

definition pad4 :: "nat \<Rightarrow> string" where
  "pad4 n = [digit_char (n div 1000 mod 10), digit_char (n div 100 mod 10),
             digit_char (n div 10 mod 10), digit_char (n mod 10)]"

fun strftime_Ymd :: "pydate \<Rightarrow> string" where
  "strftime_Ymd (Date y m d) = pad4 y @ pad2 m @ pad2 d"

definition file_name :: "pydate \<Rightarrow> string" where
  "file_name d = ''dashboard_data_'' @ strftime_Ymd d @ ''.csv''"

section \<open>Sidebar information\<close>

text \<open>
  \<open>Series.min()\<close> and \<open>Series.max()\<close> of a column of timestamps skip \<open>NaT\<close> and are
  \<open>NaT\<close> when nothing is left; \<open>strftime\<close> of \<open>NaT\<close> raises \<open>ValueError\<close>.
\<close>

fun ts_min2 :: "timestamp \<Rightarrow> timestamp \<Rightarrow> timestamp" where
  "ts_min2 NaT t = t"
| "ts_min2 t NaT = t"
| "ts_min2 a b = (if ts_le a b then a else b)"

fun ts_max2 :: "timestamp \<Rightarrow> timestamp \<Rightarrow> timestamp" where
  "ts_max2 NaT t = t"
| "ts_max2 t NaT = t"
| "ts_max2 a b = (if ts_le a b then b else a)"

definition col_min :: "timestamp list \<Rightarrow> timestamp" where
  "col_min ts = foldr ts_min2 ts NaT"

definition col_max :: "timestamp list \<Rightarrow> timestamp" where
  "col_max ts = foldr ts_max2 ts NaT"

fun strftime_dmY :: "timestamp \<Rightarrow> exn + string" where
  "strftime_dmY (Timestamp y m d n) = Inr (pad2 d @ ''/'' @ pad2 m @ ''/'' @ pad4 y)"
| "strftime_dmY NaT = Inl ValueError"

fun strftime_dm :: "timestamp \<Rightarrow> exn + string" where
  "strftime_dm (Timestamp y m d n) = Inr (pad2 d @ ''/'' @ pad2 m)"
| "strftime_dm NaT = Inl ValueError"

text \<open>
  The four values the information box formats, in the order they are computed: the last
  day of the data, the number of filtered records, the first and the last filtered day.
\<close>

definition sidebar_info :: "row list \<Rightarrow> row list \<Rightarrow> exn + string \<times> nat \<times> string \<times> string" where
  "sidebar_info df fdf =
     (case strftime_dmY (col_max (map date df)) of
        Inl e \<Rightarrow> Inl e
      | Inr a \<Rightarrow>
          (case strftime_dm (col_min (map date fdf)) of
             Inl e \<Rightarrow> Inl e
           | Inr b \<Rightarrow>
               (case strftime_dm (col_max (map date fdf)) of
                  Inl e \<Rightarrow> Inl e
                | Inr c \<Rightarrow> Inr (a, length fdf, b, c))))"

section \<open>The script, on a store of objects\<close>

text \<open>
  Frames are objects: a variable holds a reference, and the store gives the object
  behind it. An object is a frame of records or a table that a grouping has made. The
  aggregations and the sorting are the library's: they read the records of a frame and
  return a new object. The script ends with the information box: \<open>info\<close> is what it
  shows, or the exception that ends the run there.
\<close>

type_synonym ref = nat

datatype 'a obj = Rows "row list" | Table 'a

record 'a store =
  cells :: "ref \<Rightarrow> 'a obj option"
  fresh :: ref

definition empty_store :: "'a store" where
  "empty_store = \<lparr>cells = (\<lambda>_. None), fresh = 0\<rparr>"

definition alloc :: "'a obj \<Rightarrow> 'a store \<Rightarrow> ref \<times> 'a store" where
  "alloc v s = (fresh s, \<lparr>cells = (cells s)(fresh s \<mapsto> v), fresh = Suc (fresh s)\<rparr>)"

definition rows_at :: "'a store \<Rightarrow> ref \<Rightarrow> row list option" where
  "rows_at s p = (case cells s p of Some (Rows rs) \<Rightarrow> Some rs | _ \<Rightarrow> None)"

text \<open>
  The library functions the script calls on the filtered records: \<open>groupby(keys).agg(spec)\<close>
  with \<open>reset_index\<close>, \<open>nlargest\<close>, \<open>sort_values\<close> of a table and of a frame, and the
  writing of CSV cells. \<open>'a\<close> is the type of the tables.
\<close>

record 'a pandas =
  groupby_agg :: "string list \<Rightarrow> (string \<times> string) list \<Rightarrow> row list \<Rightarrow> 'a"
  nlargest :: "nat \<Rightarrow> string \<Rightarrow> 'a \<Rightarrow> 'a"
  sort_values_table :: "string \<Rightarrow> bool \<Rightarrow> 'a \<Rightarrow> 'a"
  sort_values :: "string \<Rightarrow> bool \<Rightarrow> row list \<Rightarrow> row list"
  cell_texts :: cell_text

text \<open>What the user has chosen in the sidebar, and the day of the run.\<close>

record widgets =
  date_range :: "pydate list"
  selected_categories :: "string list"
  selected_regions :: "string list"
  view_option :: string
  download :: bool
  today :: pydate

text \<open>
  The variables of the script at its end: the store, the references the variables hold,
  the indicators, the export (the CSV text and the file name, when the download was asked
  for) and the outcome of the information box.
\<close>

record 'a session =
  objects :: "'a store"
  df_ref :: ref
  filtered_ref :: ref
  cards :: kpis
  daily_sales :: ref
  category_sales :: ref
  region_sales :: ref
  top_products :: ref
  product_margin :: ref
  shown :: ref
  export :: "(string \<times> string) option"
  info :: "exn + string \<times> nat \<times> string \<times> string"

text \<open>\<open>filtered_df = df[mask].copy()\<close> or \<open>df.copy()\<close>: a new object in both branches.\<close>

definition apply_filters :: "widgets \<Rightarrow> ref \<Rightarrow> 'a store \<Rightarrow> (ref \<times> 'a store) option" where
  "apply_filters w p s =
     (case rows_at s p of
        None \<Rightarrow> None
      | Some rs \<Rightarrow>
          Some (alloc (Rows (filtered_df rs (date_range w) (selected_categories w)
                               (selected_regions w))) s))"

text \<open>The three sums of the groupings by date and by region.\<close>

definition sums3 :: "(string \<times> string) list" where
  "sums3 = [(''sales'', ''sum''), (''profit'', ''sum''), (''customers'', ''sum'')]"

text \<open>
  The script after \<open>df = load_data()\<close>, for the frame \<open>loaded\<close> that call has returned:
  the filters, the indicators, the five tables of the charts, the displayed view, the
  export and the information box. Every statement reads records from the store and puts
  its result in a new object.
\<close>

definition dashboard :: "'a pandas \<Rightarrow> widgets \<Rightarrow> row list \<Rightarrow> 'a session option" where
  "dashboard lib w loaded =
     (case alloc (Rows loaded) empty_store of (p, s0) \<Rightarrow>
      do {
        (fdf, s1) \<leftarrow> apply_filters w p s0;
        all_rows \<leftarrow> rows_at s1 p;
        rs \<leftarrow> rows_at s1 fdf;
        let (daily, s2) = alloc (Table (groupby_agg lib [''date''] sums3 rs)) s1;
        let (by_cat, s3) = alloc (Table (groupby_agg lib [''category''] [(''sales'', ''sum'')] rs)) s2;
        let (by_reg, s4) = alloc (Table (groupby_agg lib [''region''] sums3 rs)) s3;
        let (top, s5) = alloc (Table (nlargest lib 10 ''sales''
              (groupby_agg lib [''product''] [(''sales'', ''sum''), (''profit'', ''sum'')] rs))) s4;
        let (pm, s6) = alloc (Table (groupby_agg lib [''product'']
              [(''sales'', ''sum''), (''margin'', ''mean'')] rs)) s5;
        let (view, s7) =
          (if view_option w = ''Sintesi''
           then alloc (Table (sort_values_table lib ''date'' False
                  (groupby_agg lib [''date'', ''category'', ''region'']
                     (sums3 @ [(''margin'', ''mean'')]) rs))) s6
           else alloc (Rows (sort_values lib ''date'' False rs)) s6);
        Some \<lparr>objects = s7, df_ref = p, filtered_ref = fdf, cards = kpi_cards rs all_rows,
              daily_sales = daily, category_sales = by_cat, region_sales = by_reg,
              top_products = top, product_margin = pm, shown = view,
              export = (if download w then Some (to_csv (cell_texts lib) rs, file_name (today w))
                        else None),
              info = sidebar_info all_rows rs\<rparr>
      })"

section \<open>Example inputs\<close>

text \<open>A generator, a file of one record, a missing file and a file the reader rejects.\<close>

definition example_rng :: rng where
  "example_rng = \<lparr>entropy = (\<lambda>n. n * 7919 + 13), pos = 0\<rparr>"


definition example_parse :: "string \<Rightarrow> timestamp option" where
  "example_parse s = (if s = ''2024-03-05'' then Some (Timestamp 2024 3 5 0) else None)"


definition missing_env :: env where
  "missing_env = \<lparr>read_csv = Inl FileNotFoundError, parse_date = example_parse\<rparr>"


definition example_row :: row where
  "example_row =
     \<lparr>date = Timestamp 2024 3 5 0, category = ''Casa'', product = ''Forno'', sales = Fin 120,
      profit = Fin 30, customers = Fin 3, region = ''Sud'', margin = Fin 25\<rparr>"

text \<open>A second record and a frame of two records.\<close>

definition example_row2 :: row where
  "example_row2 =
     \<lparr>date = Timestamp 2024 3 9 0, category = ''Elettronica'', product = ''Tablet'',
      sales = Fin 80, profit = Fin 20, customers = Fin 2, region = ''Nord'', margin = Fin 25\<rparr>"

definition example_df :: "row list" where
  "example_df = [example_row, example_row2]"





section \<open>Properties of the synthetic data\<close>

lemma add_margin_sel [simp]:
  "date (add_margin r) = date r" "category (add_margin r) = category r"
  "product (add_margin r) = product r" "sales (add_margin r) = sales r"
  "profit (add_margin r) = profit r" "customers (add_margin r) = customers r"
  "region (add_margin r) = region r" "margin (add_margin r) = margin_of (profit r) (sales r)"
  by (simp_all add: add_margin_def)

lemma randint_range:
  "low < high \<Longrightarrow> randint low high g = (n, g') \<Longrightarrow> low \<le> n \<and> n < high"
proof -
  assume lh: "low < high" and r: "randint low high g = (n, g')"
  obtain x where n: "n = low + int x mod (high - low)"
    using r by (auto simp: randint_def split: prod.splits)
  have "0 < high - low" using lh by simp
  then have "0 \<le> int x mod (high - low) \<and> int x mod (high - low) < high - low"
    by (simp only: pos_mod_sign pos_mod_bound)
  then show ?thesis using n by linarith
qed

lemma uniform_range:
  "low < high \<Longrightarrow> uniform low high g = (u, g') \<Longrightarrow> low \<le> u \<and> u < high"
proof -
  assume lh: "low < high" and u: "uniform low high g = (u, g')"
  obtain n where n: "u = low + (high - low) * (of_nat (n mod 2 ^ 53) / 2 ^ 53)"
    using u by (auto simp: uniform_def split: prod.splits)
  let ?t = "(of_nat (n mod 2 ^ 53) / 2 ^ 53) :: rat"
  have "n mod 2 ^ 53 < 2 ^ 53" by simp
  then have "(of_nat (n mod 2 ^ 53) :: rat) < of_nat (2 ^ 53)" by (simp only: of_nat_less_iff)
  then have t1: "?t < 1" by simp
  have t0: "0 \<le> ?t" by simp
  have "0 \<le> (high - low) * ?t" using lh t0 by simp
  moreover have "(high - low) * ?t < (high - low) * 1"
    using lh t1 by (intro mult_strict_left_mono) auto
  ultimately show ?thesis using n by simp
qed

lemma choice_mem:
  "xs \<noteq> [] \<Longrightarrow> choice xs g = (x, g') \<Longrightarrow> x \<in> set xs"
proof -
  assume ne: "xs \<noteq> []" and c: "choice xs g = (x, g')"
  obtain i g1 where i: "randint 0 (int (length xs)) g = (i, g1)" by (cases "randint 0 (int (length xs)) g")
  have "0 \<le> i \<and> i < int (length xs)" using randint_range [OF _ i] ne by simp
  then have "nat i < length xs" by linarith
  moreover have "x = xs ! nat i" using c i by (simp add: choice_def)
  ultimately show ?thesis by simp
qed

lemma sample_record_fields:
  assumes "sample_record d c p g = (r, g')"
  shows "date r = d" "category r = c" "product r = p" "sample_numbers r"
proof -
  obtain s g1 where s: "randint 1000 20000 g = (s, g1)" by (cases "randint 1000 20000 g")
  obtain u g2 where u: "uniform (1 / 4) (7 / 20) g1 = (u, g2)" by (cases "uniform (1 / 4) (7 / 20) g1")
  obtain k g3 where k: "randint 40 60 g2 = (k, g3)" by (cases "randint 40 60 g2")
  obtain rg g4 where rg: "choice sample_regions g3 = (rg, g4)" by (cases "choice sample_regions g3")
  have r: "r = \<lparr>date = d, category = c, product = p, sales = Fin (of_int s),
          profit = Fin (of_int s * u), customers = Fin (of_int (s div k)), region = rg\<rparr>"
    using assms s u k rg by (simp add: sample_record_def)
  show "date r = d" "category r = c" "product r = p" by (simp_all add: r)
  have "1000 \<le> s \<and> s < 20000" using randint_range [OF _ s] by simp
  moreover have "1 / 4 \<le> u \<and> u < 7 / 20" using uniform_range [OF _ u] by simp
  moreover have "rg \<in> set sample_regions" using choice_mem [OF _ rg] by (simp add: sample_regions_def)
  ultimately show "sample_numbers r" unfolding sample_numbers_def r by auto
qed

lemma product_loop_keys:
  "map key (fst (product_loop d c ps st)) = map key (fst st) @ map (\<lambda>p. (d, c, p)) ps"
proof (induction ps arbitrary: st)
  case Nil
  then show ?case by (cases st) simp
next
  case (Cons p ps)
  obtain data g where st: "st = (data, g)" by (cases st)
  obtain r g1 where r: "sample_record d c p g = (r, g1)" by (cases "sample_record d c p g")
  have "product_loop d c (p # ps) st = product_loop d c ps (data @ [r], g1)"
    by (simp add: st r)
  then show ?case
    using Cons.IH [of "(data @ [r], g1)"] sample_record_fields(1-3) [OF r]
    by (simp add: st key_def)
qed

lemma product_loop_numbers:
  "\<forall>r \<in> set (fst st). sample_numbers r \<Longrightarrow>
   \<forall>r \<in> set (fst (product_loop d c ps st)). sample_numbers r"
proof (induction ps arbitrary: st)
  case Nil
  then show ?case by (cases st) simp
next
  case (Cons p ps)
  obtain data g where st: "st = (data, g)" by (cases st)
  obtain r g1 where r: "sample_record d c p g = (r, g1)" by (cases "sample_record d c p g")
  have eq: "product_loop d c (p # ps) st = product_loop d c ps (data @ [r], g1)"
    by (simp add: st r)
  have "\<forall>x \<in> set (fst (data @ [r], g1)). sample_numbers x"
    using Cons.prems sample_record_fields(4) [OF r] by (simp add: st)
  then show ?case unfolding eq by (rule Cons.IH)
qed

lemma category_loop_unfold:
  "category_loop d sample_categories st =
     Inr (product_loop d ''Casa'' (products_of ''Casa'')
           (product_loop d ''Abbigliamento'' (products_of ''Abbigliamento'')
             (product_loop d ''Elettronica'' (products_of ''Elettronica'') st)))"
  by (simp add: sample_categories_def sample_products_def products_of_def)

lemma category_loop_keys:
  "category_loop d sample_categories st = Inr st' \<Longrightarrow>
   map key (fst st') = map key (fst st) @ day_keys d"
  unfolding category_loop_unfold
  by (auto simp: product_loop_keys day_keys_def sample_categories_def)

lemma category_loop_numbers:
  assumes "category_loop d sample_categories st = Inr st'"
    and "\<forall>r \<in> set (fst st). sample_numbers r"
  shows "\<forall>r \<in> set (fst st'). sample_numbers r"
proof -
  have "st' = product_loop d ''Casa'' (products_of ''Casa'')
           (product_loop d ''Abbigliamento'' (products_of ''Abbigliamento'')
             (product_loop d ''Elettronica'' (products_of ''Elettronica'') st))"
    using assms(1) by (simp only: category_loop_unfold sum.inject)
  moreover have "\<forall>r \<in> set (fst (product_loop d ''Casa'' (products_of ''Casa'')
           (product_loop d ''Abbigliamento'' (products_of ''Abbigliamento'')
             (product_loop d ''Elettronica'' (products_of ''Elettronica'') st)))). sample_numbers r"
    by (intro product_loop_numbers assms(2))
  ultimately show ?thesis by simp
qed

lemma date_loop_total: "\<exists>st'. date_loop ds st = Inr st'"
  by (induction ds arbitrary: st) (simp_all add: category_loop_unfold)

lemma date_loop_keys:
  "date_loop ds st = Inr st' \<Longrightarrow>
   map key (fst st') = map key (fst st) @ concat (map day_keys ds)"
proof (induction ds arbitrary: st)
  case Nil
  then show ?case by simp
next
  case (Cons d ds)
  obtain st1 where 1: "category_loop d sample_categories st = Inr st1"
    by (simp add: category_loop_unfold)
  have "date_loop ds st1 = Inr st'" using Cons.prems 1 by simp
  from Cons.IH [OF this] category_loop_keys [OF 1] show ?case by simp
qed

lemma date_loop_numbers:
  "date_loop ds st = Inr st' \<Longrightarrow>
   \<forall>r \<in> set (fst st). sample_numbers r \<Longrightarrow> \<forall>r \<in> set (fst st'). sample_numbers r"
proof (induction ds arbitrary: st)
  case Nil
  then show ?case by simp
next
  case (Cons d ds)
  obtain st1 where 1: "category_loop d sample_categories st = Inr st1"
    by (simp add: category_loop_unfold)
  have 2: "date_loop ds st1 = Inr st'" using Cons.prems(1) 1 by simp
  have "\<forall>r \<in> set (fst st1). sample_numbers r"
    using category_loop_numbers [OF 1 Cons.prems(2)] .
  from Cons.IH [OF 2 this] show ?case .
qed

lemma key_add_margin: "key (add_margin r) = key r"
  by (simp add: key_def)

lemma create_sample_data_total: "\<exists>df. create_sample_data g = Inr df"
proof -
  obtain st where "date_loop sample_date_range ([], g) = Inr st"
    using date_loop_total by blast
  then show ?thesis by (cases st) (simp add: create_sample_data_def)
qed

lemma create_sample_data_keys:
  assumes "create_sample_data g = Inr df"
  shows "map key df = sample_keys"
proof -
  obtain st where 1: "date_loop sample_date_range ([], g) = Inr st"
    using date_loop_total by blast
  have "df = map add_margin (fst st)"
    using assms 1 by (cases st) (simp add: create_sample_data_def)
  then show ?thesis
    using date_loop_keys [OF 1] by (simp add: sample_keys_def key_add_margin comp_def)
qed

lemma create_sample_data_numbers:
  assumes "create_sample_data g = Inr df" and "r \<in> set df"
  shows "sample_numbers r" and "margin r = margin_of (profit r) (sales r)"
proof -
  obtain st where 1: "date_loop sample_date_range ([], g) = Inr st"
    using date_loop_total by blast
  have df: "df = map add_margin (fst st)"
    using assms(1) 1 by (cases st) (simp add: create_sample_data_def)
  have "\<forall>x \<in> set (fst st). sample_numbers x"
    by (rule date_loop_numbers [OF 1]) simp
  then show "sample_numbers r" using assms(2) by (auto simp: df sample_numbers_def)
  show "margin r = margin_of (profit r) (sales r)" using assms(2) by (auto simp: df)
qed

lemma length_day_keys: "length (day_keys d) = 13"
  by (simp add: day_keys_def sample_categories_def products_of_def sample_products_def)

lemma length_sample_keys: "length sample_keys = 403"
  by (simp add: sample_keys_def sample_date_range_def length_concat comp_def length_day_keys sum_list_triv)

lemma rint_floor: "\<lfloor>q\<rfloor> \<le> rint q \<and> rint q \<le> \<lfloor>q\<rfloor> + 1"
  by (simp add: rint_def Let_def)

lemma rint_ge: "of_int a \<le> q \<Longrightarrow> a \<le> rint q"
proof -
  assume "of_int a \<le> q"
  then have "a \<le> \<lfloor>q\<rfloor>" by (simp add: le_floor_iff)
  then show ?thesis using rint_floor [of q] by linarith
qed

lemma rint_le: "q \<le> of_int b \<Longrightarrow> rint q \<le> b"
proof -
  assume qb: "q \<le> of_int b"
  show ?thesis
  proof (cases "q = of_int \<lfloor>q\<rfloor>")
    case True
    then have "rint q = \<lfloor>q\<rfloor>" by (simp add: rint_def Let_def)
    moreover have "\<lfloor>q\<rfloor> \<le> b" using qb by (simp add: floor_le_iff)
    ultimately show ?thesis by simp
  next
    case False
    have "of_int \<lfloor>q\<rfloor> \<le> q" by simp
    with False have "of_int \<lfloor>q\<rfloor> < q" by (auto simp: less_le)
    with qb have "(of_int \<lfloor>q\<rfloor> :: rat) < of_int b" by simp
    then have "\<lfloor>q\<rfloor> < b" by (simp only: of_int_less_iff)
    then show ?thesis using rint_floor [of q] by linarith
  qed
qed

lemma sample_margin:
  assumes "1000 \<le> s" and "1 / 4 \<le> u" and "u < 7 / 20"
  shows "\<exists>m. margin_of (Fin (of_int s * u)) (Fin (of_int s)) = Fin m \<and> 25 \<le> m \<and> m \<le> 35"
proof -
  have s0: "(of_int s :: rat) \<noteq> 0" using assms(1) by simp
  let ?k = "rint (u * 100 * 100)"
  have eq: "margin_of (Fin (of_int s * u)) (Fin (of_int s)) = Fin (of_int ?k / 100)"
    using s0 by (simp add: margin_of_def)
  have "(of_int 2500 :: rat) \<le> u * 100 * 100" using assms(2) by simp
  then have lo: "2500 \<le> ?k" by (rule rint_ge)
  have "u * 100 * 100 \<le> (of_int 3500 :: rat)" using assms(3) by simp
  then have hi: "?k \<le> 3500" by (rule rint_le)
  have "(25 :: rat) \<le> of_int ?k / 100"
  proof -
    have "(of_int 2500 :: rat) \<le> of_int ?k" using lo by (simp only: of_int_le_iff)
    then show ?thesis by simp
  qed
  moreover have "(of_int ?k :: rat) / 100 \<le> 35"
  proof -
    have "(of_int ?k :: rat) \<le> of_int 3500" using hi by (simp only: of_int_le_iff)
    then show ?thesis by simp
  qed
  ultimately show ?thesis using eq by blast
qed

text \<open>
  Claim C9. Every record of \<open>create_sample_data\<close> has an integer \<open>sales\<close> with
  \<open>1000 \<le> sales < 20000\<close> (so the division of the margin is by a positive number),
  a \<open>profit\<close> that is \<open>sales\<close> times a factor of \<open>[0.25, 0.35)\<close>, and a \<open>margin\<close>
  between 25 and 35 percent.
\<close>

theorem sample_record_bounds:
  assumes "create_sample_data g = Inr df" and "r \<in> set df"
  shows "\<exists>s u. sales r = Fin (of_int s) \<and> 1000 \<le> s \<and> s < 20000 \<and>
           profit r = Fin (of_int s * u) \<and> 1 / 4 \<le> u \<and> u < 7 / 20 \<and>
           (\<exists>m. margin r = Fin m \<and> 25 \<le> m \<and> m \<le> 35)"
proof -
  have "sample_numbers r" using assms by (rule create_sample_data_numbers(1))
  then obtain s u where su: "1000 \<le> s" "s < 20000" "1 / 4 \<le> u" "u < 7 / 20"
      "sales r = Fin (of_int s)" "profit r = Fin (of_int s * u)"
    unfolding sample_numbers_def by blast
  have "margin r = margin_of (profit r) (sales r)"
    using assms by (rule create_sample_data_numbers(2))
  then have "\<exists>m. margin r = Fin m \<and> 25 \<le> m \<and> m \<le> 35"
    using sample_margin [OF su(1) su(3) su(4)] su(5,6) by simp
  then show ?thesis using su by blast
qed

lemma product_loop_prefix: "prefix (fst st) (fst (product_loop d c ps st))"
proof (induction ps arbitrary: st)
  case Nil
  then show ?case by (cases st) simp
next
  case (Cons p ps)
  obtain data g where st: "st = (data, g)" by (cases st)
  obtain r g1 where r: "sample_record d c p g = (r, g1)" by (cases "sample_record d c p g")
  have "prefix (data @ [r]) (fst (product_loop d c ps (data @ [r], g1)))"
    using Cons.IH [of "(data @ [r], g1)"] by simp
  then have "prefix data (fst (product_loop d c ps (data @ [r], g1)))"
    by (rule append_prefixD)
  then show ?case by (simp add: st r)
qed

lemma category_loop_prefix:
  "category_loop d sample_categories st = Inr st' \<Longrightarrow> prefix (fst st) (fst st')"
proof -
  assume a: "category_loop d sample_categories st = Inr st'"
  let ?a = "product_loop d ''Elettronica'' (products_of ''Elettronica'') st"
  let ?b = "product_loop d ''Abbigliamento'' (products_of ''Abbigliamento'') ?a"
  let ?c = "product_loop d ''Casa'' (products_of ''Casa'') ?b"
  have "st' = ?c" using a by (simp only: category_loop_unfold sum.inject)
  moreover have "prefix (fst st) (fst ?a)" by (rule product_loop_prefix)
  moreover have "prefix (fst ?a) (fst ?b)" by (rule product_loop_prefix)
  moreover have "prefix (fst ?b) (fst ?c)" by (rule product_loop_prefix)
  ultimately show ?thesis using prefix_order.trans by blast
qed

lemma date_loop_prefix: "date_loop ds st = Inr st' \<Longrightarrow> prefix (fst st) (fst st')"
proof (induction ds arbitrary: st)
  case Nil
  then show ?case by simp
next
  case (Cons d ds)
  obtain st1 where 1: "category_loop d sample_categories st = Inr st1"
    by (simp add: category_loop_unfold)
  have "date_loop ds st1 = Inr st'" using Cons.prems 1 by simp
  from Cons.IH [OF this] category_loop_prefix [OF 1] show ?case
    by (rule prefix_order.trans [rotated])
qed

lemma create_sample_data_first:
  assumes "create_sample_data g = Inr df"
  shows "df \<noteq> [] \<and>
         hd df = add_margin (fst (sample_record (Timestamp 2024 1 1 0) ''Elettronica'' ''Smartphone'' g))"
proof -
  let ?d = "Timestamp 2024 1 1 0"
  obtain r g1 where r: "sample_record ?d ''Elettronica'' ''Smartphone'' g = (r, g1)"
    by (cases "sample_record ?d ''Elettronica'' ''Smartphone'' g")
  obtain st where 1: "date_loop sample_date_range ([], g) = Inr st"
    using date_loop_total by blast
  have df: "df = map add_margin (fst st)"
    using assms 1 by (cases st) (simp add: create_sample_data_def)
  have sdr: "sample_date_range = ?d # map (\<lambda>d. Timestamp 2024 1 d 0) [2..<32]"
    by (simp add: sample_date_range_def upt_conv_Cons)
  obtain st1 where 2: "category_loop ?d sample_categories ([], g) = Inr st1"
    by (simp add: category_loop_unfold)
  have 3: "date_loop (map (\<lambda>d. Timestamp 2024 1 d 0) [2..<32]) st1 = Inr st"
    using 1 2 unfolding sdr by simp
  have "products_of ''Elettronica'' = ''Smartphone'' # [''Tablet'', ''Laptop'', ''TV'', ''Smartwatch'']"
    by (simp add: products_of_def sample_products_def)
  then have "product_loop ?d ''Elettronica'' (products_of ''Elettronica'') ([], g) =
      product_loop ?d ''Elettronica'' [''Tablet'', ''Laptop'', ''TV'', ''Smartwatch''] ([r], g1)"
    by (simp only: product_loop.simps r prod.case append_Nil)
  then have "prefix [r] (fst (product_loop ?d ''Elettronica'' (products_of ''Elettronica'') ([], g)))"
    using product_loop_prefix [of "([r], g1)" ?d "''Elettronica''" "[''Tablet'', ''Laptop'', ''TV'', ''Smartwatch'']"]
    by simp
  moreover have "prefix (fst (product_loop ?d ''Elettronica'' (products_of ''Elettronica'') ([], g))) (fst st1)"
  proof -
    let ?a = "product_loop ?d ''Elettronica'' (products_of ''Elettronica'') ([], g)"
    let ?b = "product_loop ?d ''Abbigliamento'' (products_of ''Abbigliamento'') ?a"
    let ?c = "product_loop ?d ''Casa'' (products_of ''Casa'') ?b"
    have "st1 = ?c" using 2 by (simp only: category_loop_unfold sum.inject)
    moreover have "prefix (fst ?a) (fst ?b)" by (rule product_loop_prefix)
    moreover have "prefix (fst ?b) (fst ?c)" by (rule product_loop_prefix)
    ultimately show ?thesis using prefix_order.trans by blast
  qed
  ultimately have "prefix [r] (fst st1)" by (rule prefix_order.trans)
  then have "prefix [r] (fst st)" using date_loop_prefix [OF 3] by (rule prefix_order.trans)
  then obtain ys where "fst st = [r] @ ys" by (auto simp: prefix_def)
  moreover have "fst (sample_record ?d ''Elettronica'' ''Smartphone'' g) = r"
    by (simp only: r fst_conv)
  ultimately show ?thesis by (simp add: df)
qed

section \<open>Properties of loading\<close>


lemma load_data_cases:
  "load_data e g =
     (case try_load e of
        Inr df \<Rightarrow> (Inr df, [])
      | Inl x \<Rightarrow> if x = FileNotFoundError then (create_sample_data g, [warning_text])
                 else (Inl x, []))"
  by (simp add: load_data_def)




lemma to_datetime_error: "to_datetime f rs = Inl x \<Longrightarrow> x = ValueError"
  by (induction rs arbitrary: x) (auto split: option.splits sum.splits)

lemma try_load_not_found:
  "try_load e = Inl FileNotFoundError \<longleftrightarrow> read_csv e = Inl FileNotFoundError"
  by (auto simp: try_load_def split: sum.splits dest: to_datetime_error)


section \<open>The frame generated for a missing file\<close>

lemma set_sample_keys:
  "set sample_keys =
     {(d, c, p). d \<in> set sample_date_range \<and> c \<in> set sample_categories \<and> p \<in> set (products_of c)}"
  by (auto simp: sample_keys_def day_keys_def)

lemma products_of_lookup:
  "c \<in> set sample_categories \<Longrightarrow>
   map_of sample_products c = Some (products_of c) \<and> products_of c \<noteq> []"
  by (auto simp: sample_categories_def sample_products_def products_of_def)

lemma set_sample_date_range:
  "set sample_date_range = (\<lambda>d. Timestamp 2024 1 d 0) ` {1..31}"
proof -
  have "{1..<32::nat} = {1..31}" by auto
  then show ?thesis by (simp add: sample_date_range_def)
qed

lemma sample_keys_dates: "fst ` set sample_keys = set sample_date_range"
proof
  show "fst ` set sample_keys \<subseteq> set sample_date_range"
    by (auto simp: set_sample_keys)
  show "set sample_date_range \<subseteq> fst ` set sample_keys"
  proof
    fix d assume "d \<in> set sample_date_range"
    then have "(d, ''Casa'', ''Forno'') \<in> set sample_keys"
      by (simp add: set_sample_keys sample_categories_def products_of_def sample_products_def)
    then show "d \<in> fst ` set sample_keys" by force
  qed
qed

lemma sample_keys_categories: "(\<lambda>k. fst (snd k)) ` set sample_keys = set sample_categories"
proof
  show "(\<lambda>k. fst (snd k)) ` set sample_keys \<subseteq> set sample_categories"
    by (auto simp: set_sample_keys)
  show "set sample_categories \<subseteq> (\<lambda>k. fst (snd k)) ` set sample_keys"
  proof
    fix c assume c: "c \<in> set sample_categories"
    then have "products_of c \<noteq> []" by (simp add: products_of_lookup)
    then obtain p where p: "p \<in> set (products_of c)" by (cases "products_of c") auto
    have "Timestamp 2024 1 1 0 \<in> set sample_date_range"
      by (simp add: set_sample_date_range)
    with c p have "(Timestamp 2024 1 1 0, c, p) \<in> set sample_keys"
      by (simp add: set_sample_keys)
    then show "c \<in> (\<lambda>k. fst (snd k)) ` set sample_keys" by force
  qed
qed

lemma create_sample_data_structure:
  assumes "create_sample_data g = Inr df"
  shows "length df = 403"
    and "set (map date df) = (\<lambda>d. Timestamp 2024 1 d 0) ` {1..31}"
    and "set (map category df) = {''Elettronica'', ''Abbigliamento'', ''Casa''}"
    and "\<forall>r \<in> set df. \<exists>ps. map_of sample_products (category r) = Some ps \<and> product r \<in> set ps"
    and "\<forall>r \<in> set df. region r \<in> {''Nord'', ''Centro'', ''Sud''}"
proof -
  have k: "map key df = sample_keys" using assms by (rule create_sample_data_keys)
  have "length (map key df) = 403" by (simp only: k length_sample_keys)
  then show "length df = 403" by simp
  have "map date df = map fst (map key df)" by (simp add: key_def comp_def)
  then have "set (map date df) = fst ` set sample_keys" by (simp only: k set_map)
  then show "set (map date df) = (\<lambda>d. Timestamp 2024 1 d 0) ` {1..31}"
    by (simp only: sample_keys_dates set_sample_date_range)
  have "map category df = map (\<lambda>k. fst (snd k)) (map key df)" by (simp add: key_def comp_def)
  then have "set (map category df) = (\<lambda>k. fst (snd k)) ` set sample_keys" by (simp only: k set_map)
  then show "set (map category df) = {''Elettronica'', ''Abbigliamento'', ''Casa''}"
    by (simp add: sample_keys_categories sample_categories_def)
  show "\<forall>r \<in> set df. \<exists>ps. map_of sample_products (category r) = Some ps \<and> product r \<in> set ps"
  proof
    fix r assume "r \<in> set df"
    then have "key r \<in> set (map key df)" by simp
    then have "key r \<in> set sample_keys" by (simp only: k)
    then have "category r \<in> set sample_categories \<and> product r \<in> set (products_of (category r))"
      by (simp add: set_sample_keys key_def)
    then show "\<exists>ps. map_of sample_products (category r) = Some ps \<and> product r \<in> set ps"
      using products_of_lookup by blast
  qed
  show "\<forall>r \<in> set df. region r \<in> {''Nord'', ''Centro'', ''Sud''}"
  proof
    fix r assume "r \<in> set df"
    then have "sample_numbers r" using assms create_sample_data_numbers(1) by blast
    then show "region r \<in> {''Nord'', ''Centro'', ''Sud''}"
      by (simp add: sample_numbers_def sample_regions_def)
  qed
qed

text \<open>
  Claim C4. When the file is missing, \<open>load_data\<close> returns a non-empty synthetic frame
  whose dates are exactly the 31 days from 2024-01-01 to 2024-01-31, whose categories are
  exactly the three fixed ones, where every product is in the list of its category and
  every region is one of the three fixed ones.
\<close>

theorem load_data_missing_file:
  assumes "read_csv e = Inl FileNotFoundError"
  shows "\<exists>df. load_data e g = (Inr df, [warning_text]) \<and> df \<noteq> [] \<and> length df = 403 \<and>
           set (map date df) = (\<lambda>d. Timestamp 2024 1 d 0) ` {1..31} \<and>
           set (map category df) = {''Elettronica'', ''Abbigliamento'', ''Casa''} \<and>
           (\<forall>r \<in> set df.
              (\<exists>ps. map_of sample_products (category r) = Some ps \<and> product r \<in> set ps) \<and>
              region r \<in> {''Nord'', ''Centro'', ''Sud''})"
proof -
  obtain df where df: "create_sample_data g = Inr df" using create_sample_data_total by blast
  have "try_load e = Inl FileNotFoundError" using assms by (simp add: try_load_not_found)
  then have ld: "load_data e g = (Inr df, [warning_text])" by (simp add: load_data_cases df)
  note s = create_sample_data_structure [OF df]
  have ne: "df \<noteq> []" using s(1) by auto
  have "\<forall>r \<in> set df.
      (\<exists>ps. map_of sample_products (category r) = Some ps \<and> product r \<in> set ps) \<and>
      region r \<in> {''Nord'', ''Centro'', ''Sud''}"
  proof
    fix r assume r: "r \<in> set df"
    show "(\<exists>ps. map_of sample_products (category r) = Some ps \<and> product r \<in> set ps) \<and>
      region r \<in> {''Nord'', ''Centro'', ''Sud''}"
      using s(4) [rule_format, OF r] s(5) [rule_format, OF r] by (rule conjI)
  qed
  with ld ne s(1) s(2) s(3) show ?thesis by (intro exI [of _ df] conjI)
qed

lemma rint_near: "of_int k \<le> q \<Longrightarrow> q < of_int k + 1 / 2 \<Longrightarrow> rint q = k"
proof -
  assume a: "of_int k \<le> q" and b: "q < of_int k + 1 / 2"
  have "\<lfloor>q\<rfloor> = k" using a b by (intro floor_unique) auto
  then show ?thesis using b by (simp add: rint_def Let_def)
qed

lemma example_draws:
  "sample_record d c p example_rng =
     (\<lparr>date = d, category = c, product = p, sales = Fin 1013,
       profit = Fin (1013 * (1 / 4 + (7 / 20 - 1 / 4) * (7932 / 2 ^ 53))),
       customers = Fin 19, region = ''Centro''\<rparr>,
      \<lparr>entropy = (\<lambda>n. n * 7919 + 13), pos = 4\<rparr>)"
  by (simp add: sample_record_def example_rng_def randint_def uniform_def choice_def draw_def
      sample_regions_def)

lemma example_first:
  "add_margin (fst (sample_record d c p example_rng)) =
     \<lparr>date = d, category = c, product = p, sales = Fin 1013,
      profit = Fin (1013 * (1 / 4 + (7 / 20 - 1 / 4) * (7932 / 2 ^ 53))),
      customers = Fin 19, region = ''Centro'', margin = Fin 25\<rparr>"
proof -
  have "rint ((1013 * (1 / 4 + (7 / 20 - 1 / 4) * (7932 / 2 ^ 53)) / 1013) * 100 * 100) = 2500"
    by (rule rint_near) simp_all
  then show ?thesis
    by (simp add: example_draws add_margin_def margin_of_def)
qed

theorem load_data_missing_file_witness:
  "\<exists>df. load_data missing_env example_rng = (Inr df, [warning_text]) \<and> length df = 403 \<and>
     hd df \<in> set df \<and> date (hd df) = Timestamp 2024 1 1 0 \<and>
     category (hd df) = ''Elettronica'' \<and> product (hd df) = ''Smartphone'' \<and>
     region (hd df) = ''Centro'' \<and>
     map_of sample_products (category (hd df)) =
       Some [''Smartphone'', ''Tablet'', ''Laptop'', ''TV'', ''Smartwatch'']"
proof -
  have "read_csv missing_env = Inl FileNotFoundError" by (simp add: missing_env_def)
  from load_data_missing_file [OF this, of example_rng] show ?thesis
  proof (elim exE conjE)
    fix df
    assume df: "load_data missing_env example_rng = (Inr df, [warning_text])"
      and ne: "df \<noteq> []" and len: "length df = 403"
    have "try_load missing_env = Inl FileNotFoundError"
      by (simp add: try_load_def missing_env_def)
    then have "create_sample_data example_rng = Inr df"
      using df by (simp add: load_data_cases)
    then have "df \<noteq> [] \<and> hd df = add_margin (fst (sample_record (Timestamp 2024 1 1 0)
        ''Elettronica'' ''Smartphone'' example_rng))"
      by (rule create_sample_data_first)
    then have h: "hd df = \<lparr>date = Timestamp 2024 1 1 0, category = ''Elettronica'',
        product = ''Smartphone'', sales = Fin 1013,
        profit = Fin (1013 * (1 / 4 + (7 / 20 - 1 / 4) * (7932 / 2 ^ 53))),
        customers = Fin 19, region = ''Centro'', margin = Fin 25\<rparr>"
      by (simp only: example_first)
    have mem: "hd df \<in> set df" using ne by (rule hd_in_set)
    have 1: "date (hd df) = Timestamp 2024 1 1 0" by (simp add: h)
    have 2: "category (hd df) = ''Elettronica''" by (simp add: h)
    have 3: "product (hd df) = ''Smartphone''" by (simp add: h)
    have 4: "region (hd df) = ''Centro''" by (simp add: h)
    have 5: "map_of sample_products (category (hd df)) =
       Some [''Smartphone'', ''Tablet'', ''Laptop'', ''TV'', ''Smartwatch'']"
      by (simp add: 2 sample_products_def)
    from df len mem 1 2 3 4 5 show ?thesis by (intro exI [of _ df] conjI)
  qed
qed

theorem sample_record_bounds_witness:
  "\<exists>df. create_sample_data example_rng = Inr df \<and> hd df \<in> set df \<and>
     sales (hd df) = Fin 1013 \<and> margin (hd df) = Fin 25 \<and>
     (\<exists>s u. sales (hd df) = Fin (of_int s) \<and> 1000 \<le> s \<and> s < 20000 \<and>
        profit (hd df) = Fin (of_int s * u) \<and> 1 / 4 \<le> u \<and> u < 7 / 20 \<and>
        (\<exists>m. margin (hd df) = Fin m \<and> 25 \<le> m \<and> m \<le> 35))"
proof -
  obtain df where df: "create_sample_data example_rng = Inr df"
    using create_sample_data_total by blast
  have f: "df \<noteq> [] \<and> hd df = add_margin (fst (sample_record (Timestamp 2024 1 1 0)
      ''Elettronica'' ''Smartphone'' example_rng))"
    using df by (rule create_sample_data_first)
  then have "df \<noteq> []" by (rule conjunct1)
  then have mem: "hd df \<in> set df" by (rule hd_in_set)
  have h: "hd df = \<lparr>date = Timestamp 2024 1 1 0, category = ''Elettronica'',
        product = ''Smartphone'', sales = Fin 1013,
        profit = Fin (1013 * (1 / 4 + (7 / 20 - 1 / 4) * (7932 / 2 ^ 53))),
        customers = Fin 19, region = ''Centro'', margin = Fin 25\<rparr>"
    using f by (simp only: example_first)
  have 1: "sales (hd df) = Fin 1013" by (simp add: h)
  have 2: "margin (hd df) = Fin 25" by (simp add: h)
  note b = sample_record_bounds [OF df mem]
  from df mem 1 2 b show ?thesis by (intro exI [of _ df] conjI)
qed

section \<open>Properties of the filters\<close>


lemma filtered_df_other: "length dr \<noteq> 2 \<Longrightarrow> filtered_df df dr cats regs = df"
  by (induction df dr cats regs rule: filtered_df.induct) simp_all






section \<open>Properties of the indicators\<close>

lemma fadd_commute: "fadd x y = fadd y x"
  by (cases x; cases y) simp_all



lemma fadd_zero [simp]: "fadd (Fin 0) x = x" "fadd x (Fin 0) = x"
  by (cases x; simp)+






lemma unique_props [simp]: "distinct (unique xs)" "set (unique xs) = set xs"
  by (simp_all add: unique_def)

lemma categories_props [simp]:
  "distinct (categories df)" "set (categories df) = category ` set df"
  "distinct (regions df)" "set (regions df) = region ` set df"
  by (simp_all add: categories_def regions_def)







section \<open>Properties of the script\<close>

lemma dashboard_result:
  "\<exists>out. dashboard lib w loaded = Some out \<and>
     df_ref out = 0 \<and> filtered_ref out = 1 \<and> daily_sales out = 2 \<and> category_sales out = 3 \<and>
     region_sales out = 4 \<and> top_products out = 5 \<and> product_margin out = 6 \<and> shown out = 7 \<and>
     cells (objects out) 0 = Some (Rows loaded) \<and>
     cells (objects out) 1 =
       Some (Rows (filtered_df loaded (date_range w) (selected_categories w) (selected_regions w))) \<and>
     cards out =
       kpi_cards (filtered_df loaded (date_range w) (selected_categories w) (selected_regions w)) loaded \<and>
     export out =
       (if download w
        then Some (to_csv (cell_texts lib)
                     (filtered_df loaded (date_range w) (selected_categories w) (selected_regions w)),
                   file_name (today w))
        else None) \<and>
     info out =
       sidebar_info loaded (filtered_df loaded (date_range w) (selected_categories w) (selected_regions w))"
  by (simp add: dashboard_def alloc_def apply_filters_def rows_at_def empty_store_def Let_def)

section \<open>Properties of the export and of the store\<close>



text \<open>
  Claim C8. When the date picker returns fewer than two days, the filtered output is a
  copy of the whole frame, whatever categories and regions are selected: a new object
  with the records of the loaded one.
\<close>

theorem filtered_df_short_range:
  assumes "length dr < 2"
  shows "filtered_df df dr cats regs = df \<and>
    (\<exists>out. dashboard lib \<lparr>date_range = dr, selected_categories = cats, selected_regions = regs,
                view_option = v, download = b, today = d\<rparr> df = Some out \<and>
       filtered_ref out \<noteq> df_ref out \<and>
       rows_at (objects out) (filtered_ref out) = Some df \<and>
       rows_at (objects out) (df_ref out) = Some df)"
proof -
  have f: "filtered_df df dr cats regs = df" using assms by (intro filtered_df_other) simp
  let ?w = "\<lparr>date_range = dr, selected_categories = cats, selected_regions = regs,
             view_option = v, download = b, today = d\<rparr>"
  obtain out where o: "dashboard lib ?w df = Some out" "df_ref out = 0" "filtered_ref out = 1"
      "cells (objects out) 0 = Some (Rows df)"
      "cells (objects out) 1 = Some (Rows (filtered_df df (date_range ?w) (selected_categories ?w)
          (selected_regions ?w)))"
    using dashboard_result [of lib ?w df] by (elim exE conjE)
  have "filtered_ref out \<noteq> df_ref out" by (simp add: o)
  moreover have "rows_at (objects out) (filtered_ref out) = Some df"
    using o(5) f by (simp add: rows_at_def o(3))
  moreover have "rows_at (objects out) (df_ref out) = Some df"
    using o(4) by (simp add: rows_at_def o(2))
  ultimately show ?thesis using f o(1) by (intro conjI exI [of _ out])
qed

theorem filtered_df_short_range_witness:
  "length [Date 2024 3 5] < 2 \<and>
   filtered_df example_df [Date 2024 3 5] [''Casa''] [''Sud''] = example_df \<and>
   example_row2 \<in> set (filtered_df example_df [Date 2024 3 5] [''Casa''] [''Sud'']) \<and>
   category example_row2 \<notin> set [''Casa''] \<and> region example_row2 \<notin> set [''Sud'']"
proof -
  have l: "length [Date 2024 3 5] < 2" by simp
  have "filtered_df example_df [Date 2024 3 5] [''Casa''] [''Sud''] = example_df"
    using filtered_df_short_range [OF l] by (rule conjunct1)
  then show ?thesis by (simp add: example_df_def example_row2_def)
qed

text \<open>
  Claim C6. Running the script leaves the loaded frame as it was: whatever is selected
  and whatever the aggregations, the sorting and the export compute, the object of
  \<open>df\<close> still holds the loaded records at the end, and the filtered frame, the tables
  and the displayed view are other objects.
\<close>

theorem dashboard_keeps_df:
  "\<exists>out. dashboard lib w loaded = Some out \<and>
     rows_at (objects out) (df_ref out) = Some loaded \<and>
     rows_at (objects out) (filtered_ref out) =
       Some (filtered_df loaded (date_range w) (selected_categories w) (selected_regions w)) \<and>
     df_ref out \<notin> {filtered_ref out, daily_sales out, category_sales out, region_sales out,
                     top_products out, product_margin out, shown out}"
proof -
  obtain out where o: "dashboard lib w loaded = Some out" "df_ref out = 0" "filtered_ref out = 1"
      "daily_sales out = 2" "category_sales out = 3" "region_sales out = 4" "top_products out = 5"
      "product_margin out = 6" "shown out = 7"
      "cells (objects out) 0 = Some (Rows loaded)"
      "cells (objects out) 1 = Some (Rows (filtered_df loaded (date_range w) (selected_categories w)
          (selected_regions w)))"
    using dashboard_result [of lib w loaded] by (elim exE conjE)
  have "rows_at (objects out) (df_ref out) = Some loaded"
    using o(10) by (simp add: rows_at_def o(2))
  moreover have "rows_at (objects out) (filtered_ref out) =
       Some (filtered_df loaded (date_range w) (selected_categories w) (selected_regions w))"
    using o(11) by (simp add: rows_at_def o(3))
  moreover have "df_ref out \<notin> {filtered_ref out, daily_sales out, category_sales out,
      region_sales out, top_products out, product_margin out, shown out}"
    by (simp add: o)
  ultimately show ?thesis using o(1) by (intro conjI exI [of _ out])
qed



section \<open>Division by an empty total\<close>







section \<open>Failures that nothing handles\<close>







end
